theory Spec2Isabelle
  imports Complex_Main
begin

section \<open>Data model\<close>

text \<open>
  JavaScript numbers that hold coordinates and distances are modelled as real numbers:
  the arithmetic of \<open>Math.sin\<close>, \<open>Math.cos\<close>, \<open>Math.sqrt\<close> and \<open>Math.atan2\<close> is taken
  exact, so neither the rounding of IEEE doubles nor \<open>NaN\<close> is represented. Properties of
  the distance are therefore stated only where rounding cannot change them (see
  \<open>offAntipodes\<close> below). Counts and array indices are natural numbers.
\<close>

record latLng =
  lat :: real
  lng :: real

record checkpoint =
  position :: latLng
  description :: string
  index :: nat

text \<open>A GeoJSON line string: \<open>coordinates\<close> is an array of \<open>[lng, lat]\<close> pairs; the
  field may be absent.\<close>

record geometry =
  coordinates :: "(real \<times> real) list option"

record route =
  geometry :: "geometry option"
  destCoords :: latLng

text \<open>The exceptions of the runtime that the modelled code can meet.\<close>

datatype jsError = TypeError

section \<open>Template literals: numbers as decimal strings\<close>

fun string_of_nat :: "nat \<Rightarrow> string" where
  "string_of_nat n =
     (if n < 10 then [char_of (48 + n)]
      else string_of_nat (n div 10) @ [char_of (48 + n mod 10)])"

declare string_of_nat.simps [simp del]

section \<open>Planner: \<open>generateCheckpoints\<close> (utils/leafletMaps.js)\<close>

text \<open>\<open>const [lng, lat] = coordinates[pointIndex]\<close>: a read past the end of the array gives
  \<open>undefined\<close>, and destructuring \<open>undefined\<close> throws a \<open>TypeError\<close>.\<close>

definition destructureAt :: "(real \<times> real) list \<Rightarrow> nat \<Rightarrow> jsError + real \<times> real" where
  "destructureAt coords pointIndex =
     (if pointIndex < length coords then Inr (coords ! pointIndex) else Inl TypeError)"

text \<open>The object literal pushed in the loop body, for the destructured pair and the loop
  counter \<open>i\<close>.\<close>

definition mkCheckpoint :: "real \<times> real \<Rightarrow> nat \<Rightarrow> checkpoint" where
  "mkCheckpoint pair i =
     (case pair of
        (lngv, latv) \<Rightarrow>
          \<lparr>position = \<lparr>lat = latv, lng = lngv\<rparr>,
           description = ''Checkpoint '' @ string_of_nat i,
           index = i\<rparr>)"

text \<open>\<open>for (let i = 1; i <= numCheckpoints; i++)\<close>, started at any \<open>i\<close>, with the array
  \<open>checkpoints\<close> built so far.\<close>

function checkpointsLoop ::
  "(real \<times> real) list \<Rightarrow> nat \<Rightarrow> nat \<Rightarrow> nat \<Rightarrow> checkpoint list \<Rightarrow> jsError + checkpoint list" where
  "checkpointsLoop coords interval numCheckpoints i checkpoints =
     (if i \<le> numCheckpoints then
        (let pointIndex = i * interval in
         if pointIndex < length coords
         then (case destructureAt coords pointIndex of
                 Inl e \<Rightarrow> Inl e
               | Inr pair \<Rightarrow>
                   checkpointsLoop coords interval numCheckpoints (i + 1)
                     (checkpoints @ [mkCheckpoint pair i]))
         else checkpointsLoop coords interval numCheckpoints (i + 1) checkpoints)
      else Inr checkpoints)"
  by pat_completeness auto
termination
  by (relation "measure (\<lambda>(coords, interval, numCheckpoints, i, checkpoints). numCheckpoints + 1 - i)") auto

declare checkpointsLoop.simps [simp del]

text \<open>The count is a natural number here; the source's default for it is \<open>4\<close>.\<close>

definition generateCheckpoints :: "route \<Rightarrow> nat \<Rightarrow> jsError + checkpoint list" where
  "generateCheckpoints r numCheckpoints =
     (case geometry r of
        None \<Rightarrow> Inr []
      | Some g \<Rightarrow>
          (case coordinates g of
             None \<Rightarrow> Inr []
           | Some coords \<Rightarrow>
               (let totalPoints = length coords;
                    interval = totalPoints div (numCheckpoints + 1)
                in checkpointsLoop coords interval numCheckpoints 1 [])))"

section \<open>Geospatial utilities: \<open>calculateDistance\<close> (utils/leafletMaps.js)\<close>

text \<open>\<open>Math.atan2(y, x)\<close> on real arguments, by the quadrant of \<open>(x, y)\<close>.\<close>

definition atan2 :: "real \<Rightarrow> real \<Rightarrow> real" where
  "atan2 y x =
     (if 0 < x then arctan (y / x)
      else if x < 0 then (if 0 \<le> y then arctan (y / x) + pi else arctan (y / x) - pi)
      else if 0 < y then pi / 2
      else if y < 0 then - (pi / 2)
      else 0)"

text \<open>The haversine term \<open>a\<close> of \<open>calculateDistance\<close>. In exact arithmetic it lies in
  \<open>[0, 1]\<close> (lemma \<open>haversineA_bounds\<close> below). The source computes it in doubles and does
  not clamp it: for nearly antipodal points the computed term can exceed \<open>1\<close> by a rounding
  error, \<open>Math.sqrt(1 - a)\<close> is then \<open>NaN\<close>, and so is the distance. The real-valued model
  has no such case.\<close>

definition haversineA :: "real \<Rightarrow> real \<Rightarrow> real \<Rightarrow> real \<Rightarrow> real" where
  "haversineA lat1 lon1 lat2 lon2 =
     (let phi1 = (lat1 * pi) / 180;
          phi2 = (lat2 * pi) / 180;
          dphi = ((lat2 - lat1) * pi) / 180;
          dlambda = ((lon2 - lon1) * pi) / 180
      in sin (dphi / 2) * sin (dphi / 2) +
         cos phi1 * cos phi2 * sin (dlambda / 2) * sin (dlambda / 2))"

definition calculateDistance :: "real \<Rightarrow> real \<Rightarrow> real \<Rightarrow> real \<Rightarrow> real" where
  "calculateDistance lat1 lon1 lat2 lon2 =
     (let R = 6371000;
          a = haversineA lat1 lon1 lat2 lon2;
          c = 2 * atan2 (sqrt a) (sqrt (1 - a))
      in R * c)"

section \<open>Story: \<open>generateFallbackStory\<close> (utils/gemini.js)\<close>

record storyChapter =
  chapterNumber :: nat
  title :: string
  content :: string
  estimatedReadingTime :: nat

record story =
  title :: string
  chapters :: "storyChapter list option"

definition fallbackChapter :: "string list \<Rightarrow> string \<Rightarrow> nat \<Rightarrow> storyChapter" where
  "fallbackChapter locations location i =
     \<lparr>chapterNumber = i + 1,
      title = ''Chapter '' @ string_of_nat (i + 1) @ '': Journey to '' @ locations ! (i + 1),
      content = ''As you walk towards '' @ locations ! (i + 1) @
        '', take in the surroundings around '' @ location @
        ''. Notice the architecture, the people, the sounds, and the atmosphere. Every step brings you closer to your destination, and every moment offers something new to discover. What stories do these streets hold? What lives have passed through here before you?'',
      estimatedReadingTime = 3\<rparr>"

text \<open>\<open>locations.forEach((location, index) => ...)\<close>, from position \<open>i\<close> on.\<close>

function fallbackLoop :: "string list \<Rightarrow> nat \<Rightarrow> storyChapter list \<Rightarrow> storyChapter list" where
  "fallbackLoop locations i chs =
     (if i < length locations then
        (if i < length locations - 1
         then fallbackLoop locations (i + 1) (chs @ [fallbackChapter locations (locations ! i) i])
         else fallbackLoop locations (i + 1) chs)
      else chs)"
  by pat_completeness auto
termination
  by (relation "measure (\<lambda>(locations, i, chs). length locations - i)") auto

declare fallbackLoop.simps [simp del]

definition generateFallbackStory :: "string \<Rightarrow> string \<Rightarrow> checkpoint list \<Rightarrow> story" where
  "generateFallbackStory origin destination cps =
     (let locations = [origin] @ map description cps @ [destination]
      in \<lparr>title = ''Your Walking Journey'', chapters = Some (fallbackLoop locations 0 [])\<rparr>)"

section \<open>Sequencer: the state of \<open>App\<close> and \<open>handleCheckpointReached\<close> (App.jsx)\<close>

text \<open>The object \<open>newPosition\<close> built from a geolocation sample.\<close>

record positionSample = latLng +
  accuracy :: real
  timestamp :: real

text \<open>The \<open>useState\<close> cells of \<open>App\<close> that the walk reads or writes. A missing story is
  \<open>None\<close>, and so is a story object without \<open>chapters\<close>.\<close>

record appState =
  appStory :: "story option"
  currentPosition :: "positionSample option"
  completedCheckpoints :: "nat list"
  currentChapter :: nat
  error :: "string option"
  isLoading :: bool

text \<open>The handler is a closure of one render of \<open>App\<close>. It reads \<open>completedCheckpoints\<close>
  and \<open>story\<close> from that render, here \<open>rendered\<close>; its append is the functional update
  \<open>prev => [...prev, checkpointIndex]\<close>, which acts on the latest state \<open>s\<close>, and
  \<open>setCurrentChapter\<close> overwrites the chapter of \<open>s\<close>. A call made by the render of the
  committed state is \<open>handleCheckpointReached s i s\<close>; a second call made from the same
  render keeps \<open>rendered\<close> and acts on the state the first call left. The checkpoint index
  is the array index that \<open>LeafletMapView\<close> passes.\<close>

definition handleCheckpointReached :: "appState \<Rightarrow> nat \<Rightarrow> appState \<Rightarrow> appState" where
  "handleCheckpointReached rendered checkpointIndex s =
     (if checkpointIndex \<notin> set (completedCheckpoints rendered) then
        (let s1 = s\<lparr>completedCheckpoints := completedCheckpoints s @ [checkpointIndex]\<rparr>;
             nextChapter = checkpointIndex + 1
         in case appStory rendered of
              None \<Rightarrow> s1
            | Some st \<Rightarrow>
                (case chapters st of
                   None \<Rightarrow> s1
                 | Some chs \<Rightarrow>
                     if nextChapter < length chs then s1\<lparr>currentChapter := nextChapter\<rparr> else s1))
      else s)"

definition handleError :: "string \<Rightarrow> appState \<Rightarrow> appState" where
  "handleError errorMessage s = s\<lparr>error := Some errorMessage, isLoading := False\<rparr>"

section \<open>Tracker: \<open>LeafletMapView\<close> (components/LeafletMapView.jsx)\<close>

text \<open>The component's state cells and refs, the state of \<open>App\<close> it reports to, and the
  watches that \<open>navigator.geolocation\<close> holds (one identifier per \<open>watchPosition\<close> call
  not yet cleared).\<close>

record tracker =
  isTracking :: bool
  tripStartTime :: "real option"
  totalDistance :: real
  mapCenter :: "real \<times> real"
  watchIdRef :: "nat option"
  lastPositionRef :: "positionSample option"

record world =
  app :: appState
  trk :: tracker
  activeWatches :: "nat list"
  nextWatchId :: nat
  consoleErrors :: "string list"

record geolocationError =
  code :: nat
  message :: string

text \<open>\<open>startTracking\<close>: \<open>supported\<close> says whether \<open>navigator.geolocation\<close> exists, \<open>now\<close>
  is the value of \<open>new Date()\<close>. With geolocation the state cells are set and one watch is
  registered.\<close>

definition startTracking :: "bool \<Rightarrow> real \<Rightarrow> world \<Rightarrow> world" where
  "startTracking supported now w =
     (if \<not> supported
      then w\<lparr>app := handleError ''Geolocation is not supported by this browser'' (app w)\<rparr>
      else w\<lparr>trk := (trk w)\<lparr>isTracking := True, tripStartTime := Some now,
                              watchIdRef := Some (nextWatchId w)\<rparr>,
             activeWatches := activeWatches w @ [nextWatchId w],
             nextWatchId := nextWatchId w + 1\<rparr>)"

text \<open>The success callback handed to \<open>watchPosition\<close>.\<close>

definition onPosition :: "positionSample \<Rightarrow> world \<Rightarrow> world" where
  "onPosition newPosition w =
     (let t = trk w;
          t1 = t\<lparr>mapCenter := (lat newPosition, lng newPosition)\<rparr>;
          t2 = (case lastPositionRef t of
                  None \<Rightarrow> t1
                | Some lastPos \<Rightarrow>
                    (let distance = calculateDistance (lat lastPos) (lng lastPos)
                                      (lat newPosition) (lng newPosition)
                     in t1\<lparr>totalDistance := totalDistance t1 + distance / 1000\<rparr>));
          t3 = t2\<lparr>lastPositionRef := Some newPosition\<rparr>
      in w\<lparr>trk := t3, app := (app w)\<lparr>currentPosition := Some newPosition\<rparr>\<rparr>)"

text \<open>The error callback handed to \<open>watchPosition\<close>.\<close>

definition onPositionError :: "geolocationError \<Rightarrow> world \<Rightarrow> world" where
  "onPositionError e w =
     w\<lparr>consoleErrors := consoleErrors w @ [''Geolocation error:''],
       app := handleError (''Location tracking error: '' @ message e) (app w)\<rparr>"

text \<open>Feeding a stream of samples, oldest first.\<close>

fun feedPositions :: "positionSample list \<Rightarrow> world \<Rightarrow> world" where
  "feedPositions [] w = w"
| "feedPositions (p # ps) w = feedPositions ps (onPosition p w)"

text \<open>The proximity part of the effect: \<open>checkpoints.forEach((checkpoint, index) => ...)\<close>
  from array index \<open>i\<close> on, returning the arguments of the \<open>onCheckpointReached\<close> calls in
  the order they are made. \<open>completed\<close> is the \<open>completedCheckpoints\<close> prop of the render.\<close>

fun proximityLoop :: "positionSample \<Rightarrow> nat list \<Rightarrow> checkpoint list \<Rightarrow> nat \<Rightarrow> nat list" where
  "proximityLoop cur completed [] i = []"
| "proximityLoop cur completed (cp # cps) i =
     (if i \<in> set completed then proximityLoop cur completed cps (i + 1)
      else
        (let distance = calculateDistance (lat cur) (lng cur)
                          (lat (position cp)) (lng (position cp))
         in if distance \<le> 50 then i # proximityLoop cur completed cps (i + 1)
            else proximityLoop cur completed cps (i + 1)))"

text \<open>\<open>if (!currentPosition || !checkpoints.length) return;\<close> and then the loop.\<close>

definition checkpointEvents :: "positionSample option \<Rightarrow> checkpoint list \<Rightarrow> nat list \<Rightarrow> nat list" where
  "checkpointEvents cur cps completed =
     (case cur of
        None \<Rightarrow> []
      | Some p \<Rightarrow> if length cps = 0 then [] else proximityLoop p completed cps 0)"

text \<open>One run of the effect in the render of the state \<open>s\<close>: every emitted event reaches
  the handler of that same render, one call after the other.\<close>

definition runProximityEffect :: "checkpoint list \<Rightarrow> appState \<Rightarrow> appState" where
  "runProximityEffect cps s =
     fold (handleCheckpointReached s)
       (checkpointEvents (currentPosition s) cps (completedCheckpoints s)) s"

section \<open>Notions of the specification and of the proofs\<close>

text \<open>Pairs of positions on which the doubles of the source and the reals of the model
  cannot part ways over \<open>NaN\<close>: both latitudes lie in \<open>[-90, 90]\<close>, so both cosines are
  non-negative, and the haversine term is at most \<open>99/100\<close>, so the points are not within
  about 11.5 degrees of being antipodal and a rounding error of the order of \<open>1e-15\<close>
  cannot take the computed term above \<open>1\<close>.\<close>

definition offAntipodes :: "real \<Rightarrow> real \<Rightarrow> real \<Rightarrow> real \<Rightarrow> bool" where
  "offAntipodes lat1 lon1 lat2 lon2 \<longleftrightarrow>
     - 90 \<le> lat1 \<and> lat1 \<le> 90 \<and> - 90 \<le> lat2 \<and> lat2 \<le> 90 \<and>
     haversineA lat1 lon1 lat2 lon2 \<le> 99 / 100"

text \<open>A stream of samples whose consecutive pairs are all of that kind.\<close>

fun offAntipodesPath :: "positionSample list \<Rightarrow> bool" where
  "offAntipodesPath (p # q # ps) =
     (offAntipodes (lat p) (lng p) (lat q) (lng q) \<and> offAntipodesPath (q # ps))"
| "offAntipodesPath ps = True"

text \<open>The distances between consecutive samples, each divided by 1000, added to \<open>t\<close> one
  after the other in the order of arrival.\<close>

fun kmTotal :: "real \<Rightarrow> positionSample list \<Rightarrow> real" where
  "kmTotal t (p # q # ps) =
     kmTotal (t + calculateDistance (lat p) (lng p) (lat q) (lng q) / 1000) (q # ps)"
| "kmTotal t ps = t"

text \<open>The sum of the haversine distances between consecutive samples, in metres: the
  quantity the specification names for the travelled distance.\<close>

fun pathLength :: "positionSample list \<Rightarrow> real" where
  "pathLength (p # q # ps) =
     calculateDistance (lat p) (lng p) (lat q) (lng q) + pathLength (q # ps)"
| "pathLength ps = 0"

text \<open>The point of the unit sphere at a latitude and longitude given in degrees.\<close>

definition unitX :: "real \<Rightarrow> real \<Rightarrow> real" where
  "unitX la lo = cos (la * pi / 180) * cos (lo * pi / 180)"

definition unitY :: "real \<Rightarrow> real \<Rightarrow> real" where
  "unitY la lo = cos (la * pi / 180) * sin (lo * pi / 180)"

definition unitZ :: "real \<Rightarrow> real \<Rightarrow> real" where
  "unitZ la lo = sin (la * pi / 180)"

text \<open>The straight-line distance between the points of the unit sphere at two positions.\<close>

definition chord :: "real \<Rightarrow> real \<Rightarrow> real \<Rightarrow> real \<Rightarrow> real" where
  "chord la1 lo1 la2 lo2 =
     sqrt ((unitX la1 lo1 - unitX la2 lo2)\<^sup>2 + (unitY la1 lo1 - unitY la2 lo2)\<^sup>2 +
           (unitZ la1 lo1 - unitZ la2 lo2)\<^sup>2)"

section \<open>Concrete inputs\<close>

text \<open>A route of six points, the shortest the first planner property speaks about.\<close>

definition sixPointRoute :: route where
  "sixPointRoute =
     \<lparr>geometry = Some \<lparr>coordinates = Some [(0, 0), (1, 10), (2, 20), (3, 30), (4, 40), (5, 50)]\<rparr>,
      destCoords = \<lparr>lat = 50, lng = 5\<rparr>\<rparr>"

definition threePointRoute :: route where
  "threePointRoute =
     \<lparr>geometry = Some \<lparr>coordinates = Some [(1, 10), (2, 20), (3, 30)]\<rparr>,
      destCoords = \<lparr>lat = 30, lng = 3\<rparr>\<rparr>"

text \<open>The four checkpoints that the planner returns for \<open>threePointRoute\<close>.\<close>

definition threePointCheckpoints :: "checkpoint list" where
  "threePointCheckpoints =
     [\<lparr>position = \<lparr>lat = 10, lng = 1\<rparr>, description = ''Checkpoint 1'', index = 1\<rparr>,
      \<lparr>position = \<lparr>lat = 10, lng = 1\<rparr>, description = ''Checkpoint 2'', index = 2\<rparr>,
      \<lparr>position = \<lparr>lat = 10, lng = 1\<rparr>, description = ''Checkpoint 3'', index = 3\<rparr>,
      \<lparr>position = \<lparr>lat = 10, lng = 1\<rparr>, description = ''Checkpoint 4'', index = 4\<rparr>]"

definition noGeometryRoute :: route where
  "noGeometryRoute = \<lparr>geometry = None, destCoords = \<lparr>lat = 0, lng = 0\<rparr>\<rparr>"

text \<open>A story of five empty-titled chapters and the state of \<open>App\<close> at the start of a walk
  with it.\<close>

definition fiveChapterStory :: story where
  "fiveChapterStory =
     \<lparr>title = ''Your Walking Journey'',
      chapters = Some (map (\<lambda>k. \<lparr>chapterNumber = k, title = ''Chapter'', content = ''Text'',
                                   estimatedReadingTime = 3\<rparr>) [1, 2, 3, 4, 5])\<rparr>"

definition walkStart :: appState where
  "walkStart =
     \<lparr>appStory = Some fiveChapterStory, currentPosition = None, completedCheckpoints = [],
      currentChapter = 0, error = None, isLoading = False\<rparr>"

text \<open>The component as mounted (the initial values of its state cells and refs) under a
  fresh \<open>App\<close>, and the world once tracking has started at time \<open>0\<close>.\<close>

definition mountedWorld :: world where
  "mountedWorld =
     \<lparr>app = \<lparr>appStory = None, currentPosition = None, completedCheckpoints = [],
              currentChapter = 0, error = None, isLoading = False\<rparr>,
      trk = \<lparr>isTracking = False, tripStartTime = None, totalDistance = 0,
              mapCenter = (10.7769, 106.7029), watchIdRef = None, lastPositionRef = None\<rparr>,
      activeWatches = [], nextWatchId = 1, consoleErrors = []\<rparr>"

definition trackingWorld :: world where
  "trackingWorld = startTracking True 0 mountedWorld"

definition sampleAt :: "real \<Rightarrow> real \<Rightarrow> positionSample" where
  "sampleAt la lo = \<lparr>lat = la, lng = lo, accuracy = 10, timestamp = 0\<rparr>"

text \<open>The end-to-end scenario: twenty points evenly spaced from \<open>(10.776, 106.700)\<close> to
  \<open>(10.780, 106.705)\<close>, as GeoJSON pairs \<open>[lng, lat]\<close>; four checkpoints; the fallback story
  for them; tracking started.\<close>

definition scenarioPoint :: "nat \<Rightarrow> real \<times> real" where
  "scenarioPoint k = (106.700 + real k * (0.005 / 19), 10.776 + real k * (0.004 / 19))"

definition scenarioRoute :: route where
  "scenarioRoute =
     \<lparr>geometry = Some \<lparr>coordinates = Some (map scenarioPoint [0..<20])\<rparr>,
      destCoords = \<lparr>lat = 10.780, lng = 106.705\<rparr>\<rparr>"

definition scenarioWorld :: world where
  "scenarioWorld =
     startTracking True 0
       (mountedWorld\<lparr>app := (app mountedWorld)
          \<lparr>appStory := Some (generateFallbackStory ''origin'' ''destination''
                               (projr (generateCheckpoints scenarioRoute 4)))\<rparr>\<rparr>)"

definition pointPosition :: "nat \<Rightarrow> latLng" where
  "pointPosition k = \<lparr>lat = snd (scenarioPoint k), lng = fst (scenarioPoint k)\<rparr>"

text \<open>What the planner returns for the scenario (it does return: see
  \<open>scenario_checkpoints\<close> below).\<close>

definition scenarioCheckpoints :: "checkpoint list" where
  "scenarioCheckpoints = projr (generateCheckpoints scenarioRoute 4)"

text \<open>The state of \<open>App\<close> once the sample \<open>p\<close> has come in.\<close>

definition afterSample :: "positionSample \<Rightarrow> appState" where
  "afterSample p = app (onPosition p scenarioWorld)"

text \<open>A sample exactly at the coordinate of point 8.\<close>

definition sampleAtPoint8 :: positionSample where
  "sampleAtPoint8 = sampleAt (snd (scenarioPoint 8)) (fst (scenarioPoint 8))"

section \<open>Properties of the planner\<close>

text \<open>The loop never throws: the read is guarded. It keeps the iterations whose
  \<open>pointIndex\<close> is inside the array.\<close>

lemma checkpointsLoop_eq:
  "checkpointsLoop coords interval n i acc =
     Inr (acc @ map (\<lambda>k. mkCheckpoint (coords ! (k * interval)) k)
                 (filter (\<lambda>k. k * interval < length coords) [i..<Suc n]))"
proof (induction coords interval n i acc rule: checkpointsLoop.induct)
  case (1 coords interval n i acc)
  show ?case
  proof (cases "i \<le> n")
    case True
    then have upt: "[i..<Suc n] = i # [Suc i..<Suc n]"
      by (simp add: upt_conv_Cons)
    show ?thesis
    proof (cases "i * interval < length coords")
      case inr: True
      then have d: "destructureAt coords (i * interval) = Inr (coords ! (i * interval))"
        by (simp add: destructureAt_def)
      from "1.IH"(1)[OF True refl inr d] True inr d show ?thesis
        by (subst checkpointsLoop.simps) (simp add: upt del: upt_Suc)
    next
      case out: False
      from "1.IH"(2)[OF True refl out] True out show ?thesis
        by (subst checkpointsLoop.simps) (simp add: upt del: upt_Suc)
    qed
  next
    case False
    then show ?thesis
      by (subst checkpointsLoop.simps) simp
  qed
qed

lemma interval_in_range:
  assumes "0 < (t::nat)" "i \<le> n"
  shows "i * (t div (n + 1)) < t"
proof (cases "t div (n + 1) = 0")
  case True
  then show ?thesis using assms(1) by simp
next
  case False
  have "i * (t div (n + 1)) \<le> n * (t div (n + 1))"
    using assms(2) by simp
  also have "\<dots> < (n + 1) * (t div (n + 1))"
    using False by simp
  also have "\<dots> \<le> t"
    by (simp add: mult.commute del: mult_Suc mult_Suc_right)
  finally show ?thesis .
qed

lemma generateCheckpoints_all:
  assumes "geometry r = Some g" "coordinates g = Some coords"
    and "\<forall>i\<in>{1..n}. i * (length coords div (n + 1)) < length coords"
  shows "generateCheckpoints r n =
           Inr (map (\<lambda>k. mkCheckpoint (coords ! (k * (length coords div (n + 1)))) k) [1..<Suc n])"
proof -
  have "filter (\<lambda>k. k * (length coords div (n + 1)) < length coords) [1..<Suc n] = [1..<Suc n]"
    using assms(3) by (intro filter_True) auto
  then show ?thesis
    using assms(1,2) by (simp add: generateCheckpoints_def checkpointsLoop_eq Let_def del: upt_Suc)
qed

text \<open>So the planner returns a list for every route and count.\<close>

lemma generateCheckpoints_returns: "\<exists>cps. generateCheckpoints r n = Inr cps"
  by (simp add: generateCheckpoints_def checkpointsLoop_eq Let_def split: option.splits)

lemma mk_index [simp]: "index (mkCheckpoint pair i) = i"
  by (simp add: mkCheckpoint_def split: prod.splits)

lemma mk_position [simp]:
  "position (mkCheckpoint pair i) = \<lparr>lat = snd pair, lng = fst pair\<rparr>"
  by (simp add: mkCheckpoint_def split: prod.splits)

lemma mk_description [simp]:
  "description (mkCheckpoint pair i) = ''Checkpoint '' @ string_of_nat i"
  by (simp add: mkCheckpoint_def split: prod.splits)

text \<open>
  Claim C1. For a route whose geometry has at least six coordinates and four requested
  checkpoints, and generally whenever every \<open>i * floor(totalPoints / (n + 1))\<close> for
  \<open>i\<close> in \<open>1..n\<close> is below \<open>totalPoints\<close>, \<open>generateCheckpoints\<close> returns exactly
  \<open>n\<close> checkpoints, their \<open>index\<close> fields are \<open>1, ..., n\<close> in this order, and the position
  of checkpoint \<open>i\<close> is the coordinate at \<open>i * floor(totalPoints / (n + 1))\<close>.
\<close>

theorem generateCheckpoints_evenly_spaced:
  assumes "geometry r = Some g" and "coordinates g = Some coords"
    and "(6 \<le> length coords \<and> n = 4) \<or>
         (\<forall>i\<in>{1..n}. i * (length coords div (n + 1)) < length coords)"
  shows "\<exists>cps. generateCheckpoints r n = Inr cps \<and>
           length cps = n \<and>
           map index cps = [1..<n + 1] \<and>
           (\<forall>k<n. position (cps ! k) =
              \<lparr>lat = snd (coords ! ((k + 1) * (length coords div (n + 1)))),
               lng = fst (coords ! ((k + 1) * (length coords div (n + 1))))\<rparr>)"
proof -
  have rng: "\<forall>i\<in>{1..n}. i * (length coords div (n + 1)) < length coords"
  proof
    fix i assume i: "i \<in> {1..n}"
    from assms(3) show "i * (length coords div (n + 1)) < length coords"
    proof
      assume "6 \<le> length coords \<and> n = 4"
      then have "0 < length coords" by linarith
      moreover have "i \<le> n" using i by simp
      ultimately show ?thesis by (rule interval_in_range)
    next
      assume "\<forall>i\<in>{1..n}. i * (length coords div (n + 1)) < length coords"
      with i show ?thesis by blast
    qed
  qed
  define cps where
    "cps = map (\<lambda>k. mkCheckpoint (coords ! (k * (length coords div (n + 1)))) k) [1..<Suc n]"
  have eq: "generateCheckpoints r n = Inr cps"
    unfolding cps_def by (rule generateCheckpoints_all[OF assms(1,2) rng])
  have "length cps = n"
    by (simp add: cps_def del: upt_Suc)
  moreover have "map index cps = [1..<n + 1]"
    by (simp add: cps_def comp_def del: upt_Suc)
  moreover have "position (cps ! k) =
            \<lparr>lat = snd (coords ! ((k + 1) * (length coords div (n + 1)))),
             lng = fst (coords ! ((k + 1) * (length coords div (n + 1))))\<rparr>" if "k < n" for k
  proof -
    have "[1..<Suc n] ! k = k + 1" using that by (simp del: upt_Suc)
    then show ?thesis using that by (simp add: cps_def del: upt_Suc)
  qed
  ultimately show ?thesis using eq by blast
qed

theorem generateCheckpoints_evenly_spaced_witness:
  "\<exists>cps. generateCheckpoints sixPointRoute 4 = Inr cps \<and>
     length cps = 4 \<and>
     map index cps = [1, 2, 3, 4] \<and>
     map position cps =
       [\<lparr>lat = 10, lng = 1\<rparr>, \<lparr>lat = 20, lng = 2\<rparr>, \<lparr>lat = 30, lng = 3\<rparr>, \<lparr>lat = 40, lng = 4\<rparr>]"
proof -
  let ?coords = "[(0, 0), (1, 10), (2, 20), (3, 30), (4, 40), (5, 50)] :: (real \<times> real) list"
  have g: "geometry sixPointRoute = Some \<lparr>coordinates = Some ?coords\<rparr>"
    by (simp add: sixPointRoute_def)
  have c: "coordinates \<lparr>coordinates = Some ?coords\<rparr> = Some ?coords"
    by simp
  have h: "(6 \<le> length ?coords \<and> (4::nat) = 4) \<or>
           (\<forall>i\<in>{1..4::nat}. i * (length ?coords div (4 + 1)) < length ?coords)"
    by simp
  from generateCheckpoints_evenly_spaced[OF g c h]
  obtain cps where e: "generateCheckpoints sixPointRoute 4 = Inr cps"
    and l: "length cps = 4"
    and i: "map index cps = [1..<4 + 1]"
    and p: "\<forall>k<4. position (cps ! k) =
              \<lparr>lat = snd (?coords ! ((k + 1) * (length ?coords div (4 + 1)))),
               lng = fst (?coords ! ((k + 1) * (length ?coords div (4 + 1))))\<rparr>"
    by blast
  have i': "map index cps = [1, 2, 3, 4]"
    using i by (simp add: upt_rec)
  have p': "position (cps ! k) =
            \<lparr>lat = snd (?coords ! ((k + 1) * 1)), lng = fst (?coords ! ((k + 1) * 1))\<rparr>"
    if "k < 4" for k using p that by simp
  have m: "map position cps =
     [\<lparr>lat = 10, lng = 1\<rparr>, \<lparr>lat = 20, lng = 2\<rparr>, \<lparr>lat = 30, lng = 3\<rparr>, \<lparr>lat = 40, lng = 4\<rparr>]"
    using p'[of 0] p'[of 1] p'[of 2] p'[of 3] l
    by (simp add: list_eq_iff_nth_eq less_Suc_eq numeral_nat)
  show ?thesis
    by (rule exI[of _ cps]) (simp only: e l i' m)
qed

lemma upt_1_5: "[1..<Suc 4] = [1, 2, 3, 4]"
  by code_simp

lemma generateCheckpoints_degenerate:
  assumes "geometry r = Some g" and "coordinates g = Some coords" and "length coords = 3"
  shows "generateCheckpoints r 4 = Inr (map (\<lambda>k. mkCheckpoint (coords ! 0) k) [1, 2, 3, 4])"
proof -
  have d: "length coords div (4 + 1) = 0"
    using assms(3) by simp
  have "\<forall>i\<in>{1..4::nat}. i * (length coords div (4 + 1)) < length coords"
    unfolding d using assms(3) by simp
  from generateCheckpoints_all[OF assms(1,2) this] show ?thesis
    unfolding d upt_1_5 by simp
qed

text \<open>
  Claim C2, as the code has it. For a geometry of three coordinates and four requested
  checkpoints the interval is \<open>floor(3 / 5) = 0\<close>, every \<open>pointIndex\<close> is \<open>0\<close>, and the guard
  \<open>pointIndex < totalPoints\<close> lets every iteration through: the function throws nothing and
  returns four checkpoints (not fewer), with \<open>index\<close> \<open>1, 2, 3, 4\<close>, all at the first
  coordinate.
\<close>

theorem generateCheckpoints_three_points:
  assumes "geometry r = Some g" and "coordinates g = Some coords" and "length coords = 3"
  shows "\<exists>cps. generateCheckpoints r 4 = Inr cps \<and>
           length cps = 4 \<and>
           map index cps = [1, 2, 3, 4] \<and>
           map position cps = replicate 4 \<lparr>lat = snd (coords ! 0), lng = fst (coords ! 0)\<rparr>"
  unfolding generateCheckpoints_degenerate[OF assms]
  by (simp add: numeral_eq_Suc)

lemma threePointRoute_geometry:
  "geometry threePointRoute = Some \<lparr>coordinates = Some [(1, 10), (2, 20), (3, 30)]\<rparr>"
  by (simp add: threePointRoute_def)

lemma string_of_small:
  "string_of_nat (Suc 0) = ''1''" "string_of_nat 2 = ''2''" "string_of_nat 3 = ''3''"
  "string_of_nat 4 = ''4''"
  by code_simp+

text \<open>
  Claim C2 as stated (fewer than four checkpoints) fails on a route of three points: the
  planner returns four.
\<close>

theorem generateCheckpoints_three_points_counterexample:
  "generateCheckpoints threePointRoute 4 = Inr threePointCheckpoints \<and>
   \<not> length threePointCheckpoints < 4"
proof -
  have "generateCheckpoints threePointRoute 4 =
          Inr (map (\<lambda>k. mkCheckpoint ([(1, 10), (2, 20), (3, 30)] ! 0) k) [1, 2, 3, 4])"
    by (rule generateCheckpoints_degenerate[OF threePointRoute_geometry]) simp_all
  then show ?thesis
    by (simp add: threePointCheckpoints_def mkCheckpoint_def string_of_small)
qed

theorem generateCheckpoints_three_points_witness:
  "\<exists>cps. generateCheckpoints threePointRoute 4 = Inr cps \<and>
     length cps = 4 \<and>
     map index cps = [1, 2, 3, 4] \<and>
     map position cps =
       [\<lparr>lat = 10, lng = 1\<rparr>, \<lparr>lat = 10, lng = 1\<rparr>, \<lparr>lat = 10, lng = 1\<rparr>, \<lparr>lat = 10, lng = 1\<rparr>]"
proof -
  have c: "coordinates \<lparr>coordinates = Some [(1, 10), (2, 20), (3, 30 :: real)] :: (real \<times> real) list option\<rparr>
             = Some [(1, 10), (2, 20), (3, 30)]"
    by simp
  have l: "length [(1, 10), (2, 20), (3, 30 :: real)] = 3"
    by simp
  have r: "replicate 4 \<lparr>lat = snd ([(1, 10), (2, 20), (3, 30 :: real)] ! 0),
                        lng = fst ([(1 :: real, 10), (2, 20), (3, 30 :: real)] ! 0)\<rparr> =
     [\<lparr>lat = 10, lng = 1\<rparr>, \<lparr>lat = 10, lng = 1\<rparr>, \<lparr>lat = 10, lng = 1\<rparr>, \<lparr>lat = 10, lng = 1\<rparr>]"
    by (simp add: numeral_eq_Suc)
  from generateCheckpoints_three_points[OF threePointRoute_geometry c l] show ?thesis
    unfolding r .
qed

text \<open>
  Claim C10. A route without \<open>geometry\<close>, or whose geometry has no \<open>coordinates\<close>, yields the
  empty checkpoint list and no exception, whatever the requested count.
\<close>

theorem generateCheckpoints_absent_geometry:
  assumes "geometry r = None \<or> (\<exists>g. geometry r = Some g \<and> coordinates g = None)"
  shows "generateCheckpoints r n = Inr []"
  using assms by (auto simp: generateCheckpoints_def)

theorem generateCheckpoints_absent_geometry_witness:
  "generateCheckpoints noGeometryRoute 4 = Inr [] \<and>
   generateCheckpoints (noGeometryRoute\<lparr>geometry := Some \<lparr>coordinates = None\<rparr>\<rparr>) 4 = Inr []"
  using generateCheckpoints_absent_geometry[of noGeometryRoute 4]
    generateCheckpoints_absent_geometry[of "noGeometryRoute\<lparr>geometry := Some \<lparr>coordinates = None\<rparr>\<rparr>" 4]
  by (simp add: noGeometryRoute_def)

section \<open>Properties of the fallback story\<close>

lemma fallbackLoop_length:
  "length (fallbackLoop locations i chs) = length chs + (length locations - 1 - i)"
proof (induction locations i chs rule: fallbackLoop.induct)
  case (1 locations i chs)
  show ?case
  proof (cases "i < length locations - 1")
    case True
    then have "i < length locations" by simp
    with "1.IH"(1)[OF this True] True show ?thesis
      by (subst fallbackLoop.simps) simp
  next
    case False
    show ?thesis
    proof (cases "i < length locations")
      case True
      with "1.IH"(2)[OF True False] False show ?thesis
        by (subst fallbackLoop.simps) simp
    next
      case False
      then show ?thesis
        by (subst fallbackLoop.simps) simp
    qed
  qed
qed

text \<open>
  Claim C7. The fallback story always has a chapter list, and it holds one chapter more
  than there are checkpoints.
\<close>

theorem generateFallbackStory_chapter_count:
  "\<exists>chs. chapters (generateFallbackStory origin destination cps) = Some chs \<and>
         length chs = length cps + 1"
  by (simp add: generateFallbackStory_def fallbackLoop_length)

section \<open>Properties of the sequencer\<close>

lemma handleCheckpointReached_completed:
  "i \<notin> set (completedCheckpoints r) \<Longrightarrow>
   completedCheckpoints (handleCheckpointReached r i s) = completedCheckpoints s @ [i]"
  by (simp add: handleCheckpointReached_def Let_def split: option.splits)

lemma handleCheckpointReached_story:
  "appStory (handleCheckpointReached r i s) = appStory s"
  by (simp add: handleCheckpointReached_def Let_def split: option.splits)

lemma handleCheckpointReached_chapter:
  "i \<notin> set (completedCheckpoints r) \<Longrightarrow> appStory r = Some st \<Longrightarrow>
   chapters st = Some chs \<Longrightarrow> i + 1 < length chs \<Longrightarrow>
   currentChapter (handleCheckpointReached r i s) = i + 1"
  by (simp add: handleCheckpointReached_def Let_def)

lemma handleCheckpointReached_known:
  "i \<in> set (completedCheckpoints r) \<Longrightarrow> handleCheckpointReached r i s = s"
  by (simp add: handleCheckpointReached_def)

text \<open>
  Claim C3. A call with an index that the handler's render does not list as completed
  appends the index to the completed list; it sets the current chapter to \<open>index + 1\<close>
  whenever that is below the number of chapters; and order is not enforced: if a larger
  index \<open>j\<close> is reported first and a smaller, not yet completed index \<open>i\<close> after it, the
  current chapter goes down from \<open>j + 1\<close> to \<open>i + 1\<close>. The last holds when both calls come
  from one render, and when the second call comes from the render of the state that the
  first call left (the last conjunct, where the first render is the one of \<open>s\<close>).
\<close>

theorem handleCheckpointReached_new_index:
  assumes "i \<notin> set (completedCheckpoints r)"
  shows "completedCheckpoints (handleCheckpointReached r i s) = completedCheckpoints s @ [i] \<and>
         (\<forall>st chs. appStory r = Some st \<and> chapters st = Some chs \<and> i + 1 < length chs \<longrightarrow>
            currentChapter (handleCheckpointReached r i s) = i + 1) \<and>
         (\<forall>st chs j. appStory r = Some st \<and> chapters st = Some chs \<and>
            j \<notin> set (completedCheckpoints r) \<and> i < j \<and> j + 1 < length chs \<longrightarrow>
            currentChapter (handleCheckpointReached r j s) = j + 1 \<and>
            currentChapter (handleCheckpointReached r i (handleCheckpointReached r j s)) = i + 1 \<and>
            currentChapter (handleCheckpointReached r i (handleCheckpointReached r j s)) <
              currentChapter (handleCheckpointReached r j s)) \<and>
         (\<forall>st chs j. r = s \<and> appStory s = Some st \<and> chapters st = Some chs \<and>
            j \<notin> set (completedCheckpoints s) \<and> i < j \<and> j + 1 < length chs \<longrightarrow>
            currentChapter (handleCheckpointReached s j s) = j + 1 \<and>
            currentChapter (handleCheckpointReached (handleCheckpointReached s j s) i
                              (handleCheckpointReached s j s)) = i + 1 \<and>
            currentChapter (handleCheckpointReached (handleCheckpointReached s j s) i
                              (handleCheckpointReached s j s)) <
              currentChapter (handleCheckpointReached s j s))"
proof (intro conjI allI impI)
  show "completedCheckpoints (handleCheckpointReached r i s) = completedCheckpoints s @ [i]"
    using assms by (rule handleCheckpointReached_completed)
next
  fix st chs
  assume "appStory r = Some st \<and> chapters st = Some chs \<and> i + 1 < length chs"
  then show "currentChapter (handleCheckpointReached r i s) = i + 1"
    using assms by (simp add: handleCheckpointReached_chapter)
next
  fix st chs j
  assume a: "appStory r = Some st \<and> chapters st = Some chs \<and>
             j \<notin> set (completedCheckpoints r) \<and> i < j \<and> j + 1 < length chs"
  then show j: "currentChapter (handleCheckpointReached r j s) = j + 1"
    by (simp add: handleCheckpointReached_chapter)
  show i: "currentChapter (handleCheckpointReached r i (handleCheckpointReached r j s)) = i + 1"
    using a assms by (simp add: handleCheckpointReached_chapter)
  show "currentChapter (handleCheckpointReached r i (handleCheckpointReached r j s)) <
          currentChapter (handleCheckpointReached r j s)"
    unfolding i j using a by simp
next
  fix st chs j
  assume a: "r = s \<and> appStory s = Some st \<and> chapters st = Some chs \<and>
             j \<notin> set (completedCheckpoints s) \<and> i < j \<and> j + 1 < length chs"
  let ?s' = "handleCheckpointReached s j s"
  from a show j: "currentChapter ?s' = j + 1"
    by (simp add: handleCheckpointReached_chapter)
  have "i \<notin> set (completedCheckpoints ?s')"
    using a assms by (simp add: handleCheckpointReached_completed)
  moreover have "appStory ?s' = Some st"
    using a by (simp add: handleCheckpointReached_story)
  ultimately show i: "currentChapter (handleCheckpointReached ?s' i ?s') = i + 1"
    using a by (simp add: handleCheckpointReached_chapter)
  show "currentChapter (handleCheckpointReached ?s' i ?s') < currentChapter ?s'"
    unfolding i j using a by simp
qed

theorem handleCheckpointReached_new_index_witness:
  "completedCheckpoints (handleCheckpointReached walkStart 1 walkStart) = [1] \<and>
   currentChapter (handleCheckpointReached walkStart 1 walkStart) = 2 \<and>
   currentChapter (handleCheckpointReached walkStart 3 walkStart) = 4 \<and>
   currentChapter (handleCheckpointReached walkStart 1
                     (handleCheckpointReached walkStart 3 walkStart)) = 2 \<and>
   currentChapter (handleCheckpointReached (handleCheckpointReached walkStart 3 walkStart) 1
                     (handleCheckpointReached walkStart 3 walkStart)) = 2"
proof -
  have h: "1 \<notin> set (completedCheckpoints walkStart)"
    by (simp add: walkStart_def)
  have s: "appStory walkStart = Some fiveChapterStory"
    by (simp add: walkStart_def)
  obtain chs where c: "chapters fiveChapterStory = Some chs" and l: "length chs = 5"
    by (simp add: fiveChapterStory_def)
  have h3: "3 \<notin> set (completedCheckpoints walkStart)"
    by (simp add: walkStart_def)
  note t = handleCheckpointReached_new_index[OF h, of walkStart]
  from t have "completedCheckpoints (handleCheckpointReached walkStart 1 walkStart) = [1]"
    by (simp add: walkStart_def)
  moreover from t s c l have "currentChapter (handleCheckpointReached walkStart 1 walkStart) = 2"
    by simp
  moreover from t s c l h3 have
    "currentChapter (handleCheckpointReached walkStart 3 walkStart) = 4 \<and>
     currentChapter (handleCheckpointReached walkStart 1
                       (handleCheckpointReached walkStart 3 walkStart)) = 2 \<and>
     currentChapter (handleCheckpointReached (handleCheckpointReached walkStart 3 walkStart) 1
                       (handleCheckpointReached walkStart 3 walkStart)) = 2"
    by simp
  ultimately show ?thesis by blast
qed

text \<open>Two calls with a fresh index from one render leave the index twice in the array:
  the second call still sees the render's list. As a set the completed checkpoints are
  the same as after one call.\<close>

lemma handleCheckpointReached_twice_same_render:
  "i \<notin> set (completedCheckpoints r) \<Longrightarrow>
   completedCheckpoints (handleCheckpointReached r i (handleCheckpointReached r i s)) =
     completedCheckpoints s @ [i, i]"
  by (simp add: handleCheckpointReached_completed)

text \<open>
  Claim C4. Let the first call come from the render \<open>r\<close> and the second, with the same
  index, from a render \<open>r'\<close> that lists at least the completed checkpoints of \<open>r\<close> and has
  the same story: the same render again, or any later one. After the second call the
  set of completed checkpoints and the current chapter are what they were after the
  first. And a call whose render already lists the index changes nothing at all.
\<close>

theorem handleCheckpointReached_idempotent:
  assumes "set (completedCheckpoints r) \<subseteq> set (completedCheckpoints r')"
    and "appStory r' = appStory r"
  shows "set (completedCheckpoints (handleCheckpointReached r' i (handleCheckpointReached r i s))) =
           set (completedCheckpoints (handleCheckpointReached r i s)) \<and>
         currentChapter (handleCheckpointReached r' i (handleCheckpointReached r i s)) =
           currentChapter (handleCheckpointReached r i s) \<and>
         (i \<in> set (completedCheckpoints r') \<longrightarrow>
            handleCheckpointReached r' i (handleCheckpointReached r i s) =
              handleCheckpointReached r i s)"
proof (cases "i \<in> set (completedCheckpoints r')")
  case True
  then show ?thesis
    by (simp add: handleCheckpointReached_known)
next
  case False
  with assms(1) have fresh: "i \<notin> set (completedCheckpoints r)"
    by blast
  let ?s1 = "handleCheckpointReached r i s"
  have c1: "completedCheckpoints ?s1 = completedCheckpoints s @ [i]"
    using fresh by (rule handleCheckpointReached_completed)
  have c2: "completedCheckpoints (handleCheckpointReached r' i ?s1) = completedCheckpoints ?s1 @ [i]"
    using False by (rule handleCheckpointReached_completed)
  have sets: "set (completedCheckpoints (handleCheckpointReached r' i ?s1)) =
                set (completedCheckpoints ?s1)"
    unfolding c2 unfolding c1 by auto
  have chap: "currentChapter (handleCheckpointReached r' i ?s1) = currentChapter ?s1"
    using False fresh assms(2)
    by (simp add: handleCheckpointReached_def Let_def split: option.splits)
  from sets chap False show ?thesis
    by simp
qed

theorem handleCheckpointReached_idempotent_witness:
  "set (completedCheckpoints (handleCheckpointReached walkStart 2
          (handleCheckpointReached walkStart 2 walkStart))) = {2} \<and>
   set (completedCheckpoints (handleCheckpointReached walkStart 2 walkStart)) = {2} \<and>
   currentChapter (handleCheckpointReached walkStart 2
          (handleCheckpointReached walkStart 2 walkStart)) = 3 \<and>
   currentChapter (handleCheckpointReached walkStart 2 walkStart) = 3 \<and>
   handleCheckpointReached (handleCheckpointReached walkStart 2 walkStart) 2
          (handleCheckpointReached walkStart 2 walkStart) =
     handleCheckpointReached walkStart 2 walkStart"
proof -
  let ?s1 = "handleCheckpointReached walkStart 2 walkStart"
  have f: "2 \<notin> set (completedCheckpoints walkStart)"
    by (simp add: walkStart_def)
  have c1: "completedCheckpoints ?s1 = [2]"
    using handleCheckpointReached_completed[OF f, of walkStart] by (simp add: walkStart_def)
  have ch1: "currentChapter ?s1 = 3"
    by (simp add: handleCheckpointReached_def walkStart_def fiveChapterStory_def)
  have same: "set (completedCheckpoints walkStart) \<subseteq> set (completedCheckpoints walkStart)"
    "appStory walkStart = appStory walkStart"
    by simp_all
  have later: "set (completedCheckpoints walkStart) \<subseteq> set (completedCheckpoints ?s1)"
    "appStory ?s1 = appStory walkStart"
    by (simp_all add: walkStart_def handleCheckpointReached_story)
  have known: "2 \<in> set (completedCheckpoints ?s1)"
    by (simp add: c1)
  from handleCheckpointReached_idempotent[OF same, of 2 walkStart]
    handleCheckpointReached_idempotent[OF later, of 2 walkStart] known c1 ch1
  show ?thesis
    by simp
qed

section \<open>The error callback of the tracker\<close>

text \<open>
  Claim C9. The error callback of the position watch reports the error to \<open>App\<close> (the
  message lands in its \<open>error\<close> cell) and leaves the trip state as it was: start time, last
  position, travelled distance, completed checkpoints and current chapter. It registers
  no watch: the watches held by \<open>navigator.geolocation\<close> are the same before and after.
\<close>

theorem onPositionError_keeps_trip_state:
  "tripStartTime (trk (onPositionError e w)) = tripStartTime (trk w) \<and>
   lastPositionRef (trk (onPositionError e w)) = lastPositionRef (trk w) \<and>
   totalDistance (trk (onPositionError e w)) = totalDistance (trk w) \<and>
   completedCheckpoints (app (onPositionError e w)) = completedCheckpoints (app w) \<and>
   currentChapter (app (onPositionError e w)) = currentChapter (app w) \<and>
   trk (onPositionError e w) = trk w \<and>
   error (app (onPositionError e w)) = Some (''Location tracking error: '' @ message e) \<and>
   activeWatches (onPositionError e w) = activeWatches w \<and>
   nextWatchId (onPositionError e w) = nextWatchId w"
  by (simp add: onPositionError_def handleError_def)

section \<open>Properties of the distance\<close>

lemma pi_ge_three: "3 \<le> pi"
proof -
  have "sin (pi / 6) \<le> pi / 6"
    by (rule sin_x_le_x) simp
  then show ?thesis
    by (simp add: sin_30)
qed

lemma haversineA_sym: "haversineA lat1 lon1 lat2 lon2 = haversineA lat2 lon2 lat1 lon1"
proof -
  have p: "(lat1 - lat2) * pi / 180 / 2 = - ((lat2 - lat1) * pi / 180 / 2)"
    by (simp add: field_simps)
  have l: "(lon1 - lon2) * pi / 180 / 2 = - ((lon2 - lon1) * pi / 180 / 2)"
    by (simp add: field_simps)
  show ?thesis
    unfolding haversineA_def Let_def p l sin_minus by (simp add: mult.commute)
qed

lemma haversineA_same: "haversineA la lo la lo = 0"
  by (simp add: haversineA_def)

lemma calculateDistance_same: "calculateDistance la lo la lo = 0"
  by (simp add: calculateDistance_def haversineA_same atan2_def)

lemma calculateDistance_sym:
  "calculateDistance lat1 lon1 lat2 lon2 = calculateDistance lat2 lon2 lat1 lon1"
  unfolding calculateDistance_def haversineA_sym[of lat1 lon1 lat2 lon2] ..

lemma haversineA_alt:
  "haversineA lat1 lon1 lat2 lon2 =
     (1 - cos ((lat2 - lat1) * pi / 180)) / 2 +
     cos (lat1 * pi / 180) * cos (lat2 * pi / 180) * ((1 - cos ((lon2 - lon1) * pi / 180)) / 2)"
proof -
  have s: "sin (x / 2) * sin (x / 2) = (1 - cos x) / 2" for x :: real
    using cos_double_sin[of "x / 2"] by (simp add: power2_eq_square)
  have "haversineA lat1 lon1 lat2 lon2 =
      sin ((lat2 - lat1) * pi / 180 / 2) * sin ((lat2 - lat1) * pi / 180 / 2) +
      cos (lat1 * pi / 180) * cos (lat2 * pi / 180) *
        (sin ((lon2 - lon1) * pi / 180 / 2) * sin ((lon2 - lon1) * pi / 180 / 2))"
    unfolding haversineA_def Let_def by (simp only: mult.assoc)
  then show ?thesis
    by (simp only: s)
qed

lemma haversineA_bounds: "0 \<le> haversineA lat1 lon1 lat2 lon2 \<and> haversineA lat1 lon1 lat2 lon2 \<le> 1"
proof -
  define p1 where "p1 = lat1 * pi / 180"
  define p2 where "p2 = lat2 * pi / 180"
  define s where "s = (1 - cos ((lon2 - lon1) * pi / 180)) / 2"
  have d: "(lat2 - lat1) * pi / 180 = p2 - p1"
    by (simp add: p1_def p2_def algebra_simps diff_divide_distrib)
  have s01: "0 \<le> s" "s \<le> 1"
    using cos_le_one[of "(lon2 - lon1) * pi / 180"] cos_ge_minus_one[of "(lon2 - lon1) * pi / 180"]
    by (simp_all add: s_def)
  have a: "haversineA lat1 lon1 lat2 lon2 = (1 - cos (p2 - p1)) / 2 + cos p1 * cos p2 * s"
    unfolding haversineA_alt d s_def p1_def p2_def by simp
  have cd: "cos (p2 - p1) = cos p1 * cos p2 + sin p1 * sin p2"
    by (simp add: cos_diff mult.commute)
  have ca: "cos (p2 + p1) = cos p1 * cos p2 - sin p1 * sin p2"
    by (simp add: cos_add mult.commute)
  have a2: "haversineA lat1 lon1 lat2 lon2 =
              1 / 2 - (1 - s) * cos (p2 - p1) / 2 + s * cos (p2 + p1) / 2"
    unfolding a cd ca by (simp add: field_simps)
  have u1: "(1 - s) * cos (p2 - p1) \<le> 1 - s"
    using s01 cos_le_one[of "p2 - p1"] by (simp add: mult_left_le)
  have u2: "- (1 - s) \<le> (1 - s) * cos (p2 - p1)"
    using s01 cos_ge_minus_one[of "p2 - p1"]
    by (metis diff_ge_0_iff_ge mult.right_neutral mult_left_mono mult_minus_right)
  have v1: "s * cos (p2 + p1) \<le> s"
    using s01 cos_le_one[of "p2 + p1"] by (simp add: mult_left_le)
  have v2: "- s \<le> s * cos (p2 + p1)"
    using s01 cos_ge_minus_one[of "p2 + p1"]
    by (metis mult.right_neutral mult_left_mono mult_minus_right)
  show ?thesis
    unfolding a2 using u1 u2 v1 v2 by linarith
qed

lemma atan2_nonneg: "0 \<le> y \<Longrightarrow> 0 \<le> x \<Longrightarrow> 0 \<le> atan2 y x"
  by (simp add: atan2_def)

lemma calculateDistance_nonneg: "0 \<le> calculateDistance lat1 lon1 lat2 lon2"
proof -
  have "0 \<le> sqrt (haversineA lat1 lon1 lat2 lon2)"
    and "0 \<le> sqrt (1 - haversineA lat1 lon1 lat2 lon2)"
    using haversineA_bounds[of lat1 lon1 lat2 lon2] by simp_all
  then have "0 \<le> atan2 (sqrt (haversineA lat1 lon1 lat2 lon2))
                     (sqrt (1 - haversineA lat1 lon1 lat2 lon2))"
    by (rule atan2_nonneg)
  then show ?thesis
    by (simp add: calculateDistance_def Let_def)
qed

lemma haversineA_quarter_turn: "haversineA 0 0 0 90 = 1 / 2"
proof -
  have "sin (pi / 4) * sin (pi / 4) = 1 / 2"
    by (simp add: sin_45)
  then show ?thesis
    by (simp add: haversineA_def)
qed

lemma calculateDistance_quarter_turn: "calculateDistance 0 0 0 90 = 6371000 * (pi / 2)"
  by (simp add: calculateDistance_def haversineA_quarter_turn atan2_def arctan_one)

text \<open>
  Claim C5, as the code has it. The distance is a function of its four arguments alone;
  the distance from a point to itself is zero (so equal points are at distance zero); and
  the distance is symmetric on every pair of positions with latitudes in \<open>[-90, 90]\<close> that
  is not nearly antipodal. Nearly antipodal pairs are left out, because there the source
  can return \<open>NaN\<close>, which is not equal to itself. The converse of the second part is left
  out too: see the counterexample below.
\<close>

theorem calculateDistance_zero_on_equal_symmetric:
  "calculateDistance lat1 lon1 lat1 lon1 = 0 \<and>
   (offAntipodes lat1 lon1 lat2 lon2 \<longrightarrow>
      calculateDistance lat1 lon1 lat2 lon2 = calculateDistance lat2 lon2 lat1 lon1)"
  using calculateDistance_sym[of lat1 lon1 lat2 lon2] calculateDistance_same[of lat1 lon1]
  by simp

theorem calculateDistance_zero_on_equal_symmetric_witness:
  "offAntipodes 0 0 0 90 \<and>
   calculateDistance 0 0 0 90 = calculateDistance 0 90 0 0 \<and>
   calculateDistance 0 0 0 0 = 0"
proof -
  have o: "offAntipodes 0 0 0 90"
    by (simp add: offAntipodes_def haversineA_quarter_turn)
  with calculateDistance_zero_on_equal_symmetric[of 0 0 0 90] show ?thesis
    by simp
qed

text \<open>
  Claim C5 as stated (zero if and only if the points are equal) fails: the two different
  points \<open>(90, 0)\<close> and \<open>(90, 1e-160)\<close> are at distance zero. In exact arithmetic the factor
  \<open>cos \<phi>\<close> is zero at latitude 90; in doubles it is about \<open>6e-17\<close> and the product with
  the squared sine of the tiny longitude difference underflows to zero. Either way the
  source returns \<open>0\<close> on this input.
\<close>

theorem calculateDistance_zero_iff_counterexample:
  "calculateDistance 90 0 90 (1 / 10 ^ 160) = 0 \<and> (90 :: real, 0 :: real) \<noteq> (90, 1 / 10 ^ 160)"
proof -
  have "haversineA 90 0 90 (1 / 10 ^ 160) = 0"
    by (simp add: haversineA_def)
  then show ?thesis
    by (simp add: calculateDistance_def atan2_def)
qed

section \<open>The travelled distance\<close>

lemma onPosition_last [simp]: "lastPositionRef (trk (onPosition p w)) = Some p"
  by (simp add: onPosition_def Let_def split: option.splits)

lemma onPosition_total:
  "totalDistance (trk (onPosition p w)) =
     totalDistance (trk w) +
     (case lastPositionRef (trk w) of
        None \<Rightarrow> 0
      | Some l \<Rightarrow> calculateDistance (lat l) (lng l) (lat p) (lng p) / 1000)"
  by (simp add: onPosition_def Let_def split: option.splits)

lemma onPosition_mono: "totalDistance (trk w) \<le> totalDistance (trk (onPosition p w))"
  using calculateDistance_nonneg by (simp add: onPosition_total split: option.splits)

lemma feedPositions_append:
  "feedPositions (ps @ qs) w = feedPositions qs (feedPositions ps w)"
  by (induction ps arbitrary: w) simp_all

lemma feedPositions_kmTotal:
  "totalDistance (trk (feedPositions ps w)) =
     kmTotal (totalDistance (trk w))
       (case lastPositionRef (trk w) of None \<Rightarrow> ps | Some l \<Rightarrow> l # ps)"
proof (induction ps arbitrary: w)
  case Nil
  then show ?case by (simp split: option.splits)
next
  case (Cons p ps)
  show ?case
    by (simp add: Cons.IH onPosition_total split: option.splits)
qed

text \<open>
  Claim C6, as the code has it. The tracker keeps \<open>totalDistance\<close> in kilometres: each
  sample adds \<open>distance / 1000\<close> to it. Start with no last position and a total of zero,
  and take any stream of samples none of whose consecutive pairs is nearly antipodal.
  Then the total after the stream is what one gets by adding, one after the other in the
  order of arrival, the haversine distances between consecutive samples, each divided by
  1000; and from each sample of the stream to the next the total does not decrease.
  Nearly antipodal consecutive samples are left out, because there the source can add
  \<open>NaN\<close>.
\<close>

theorem totalDistance_is_km_total:
  assumes "lastPositionRef (trk w) = None" and "totalDistance (trk w) = 0"
    and "offAntipodesPath ps"
  shows "totalDistance (trk (feedPositions ps w)) = kmTotal 0 ps \<and>
         (\<forall>k<length ps.
            totalDistance (trk (feedPositions (take k ps) w)) \<le>
            totalDistance (trk (feedPositions (take (Suc k) ps) w)))"
proof (intro conjI allI impI)
  show "totalDistance (trk (feedPositions ps w)) = kmTotal 0 ps"
    using assms(1,2) by (simp add: feedPositions_kmTotal)
next
  fix k assume "k < length ps"
  then have "take (Suc k) ps = take k ps @ [ps ! k]"
    by (rule take_Suc_conv_app_nth)
  then have "feedPositions (take (Suc k) ps) w =
               onPosition (ps ! k) (feedPositions (take k ps) w)"
    by (simp add: feedPositions_append)
  then show "totalDistance (trk (feedPositions (take k ps) w)) \<le>
             totalDistance (trk (feedPositions (take (Suc k) ps) w))"
    by (simp add: onPosition_mono)
qed

lemma trackingWorld_fresh:
  "lastPositionRef (trk trackingWorld) = None" "totalDistance (trk trackingWorld) = 0"
  by (simp_all add: trackingWorld_def startTracking_def mountedWorld_def)

lemma quarter_turn_path: "offAntipodesPath [sampleAt 0 0, sampleAt 0 90]"
  by (simp add: sampleAt_def offAntipodes_def haversineA_quarter_turn)

theorem totalDistance_is_km_total_witness:
  "offAntipodesPath [sampleAt 0 0, sampleAt 0 90] \<and>
   totalDistance (trk (feedPositions [sampleAt 0 0, sampleAt 0 90] trackingWorld)) =
     calculateDistance 0 0 0 90 / 1000 \<and>
   totalDistance (trk (feedPositions [sampleAt 0 0] trackingWorld)) \<le>
     totalDistance (trk (feedPositions [sampleAt 0 0, sampleAt 0 90] trackingWorld))"
proof -
  note t = totalDistance_is_km_total[OF trackingWorld_fresh quarter_turn_path]
  from t have "totalDistance (trk (feedPositions [sampleAt 0 0, sampleAt 0 90] trackingWorld)) =
     calculateDistance 0 0 0 90 / 1000"
    by (simp add: sampleAt_def)
  moreover from t have m:
    "\<forall>k<length [sampleAt 0 0, sampleAt 0 90].
       totalDistance (trk (feedPositions (take k [sampleAt 0 0, sampleAt 0 90]) trackingWorld)) \<le>
       totalDistance (trk (feedPositions (take (Suc k) [sampleAt 0 0, sampleAt 0 90]) trackingWorld))"
    by blast
  have "totalDistance (trk (feedPositions [sampleAt 0 0] trackingWorld)) \<le>
     totalDistance (trk (feedPositions [sampleAt 0 0, sampleAt 0 90] trackingWorld))"
    using m[rule_format, of 1] by simp
  ultimately show ?thesis
    using quarter_turn_path by blast
qed

text \<open>
  Claim C6 as stated (the accumulated value is the sum of the distances in metres) fails:
  after the samples \<open>(0, 0)\<close> and \<open>(0, 90)\<close>, a quarter of the way round the equator, the
  total is about 10008 (kilometres), the sum of the distances about 10007543 (metres).
\<close>

theorem totalDistance_metres_counterexample:
  "totalDistance (trk (feedPositions [sampleAt 0 0, sampleAt 0 90] trackingWorld)) \<le> 12742 \<and>
   9556500 \<le> pathLength [sampleAt 0 0, sampleAt 0 90] \<and>
   totalDistance (trk (feedPositions [sampleAt 0 0, sampleAt 0 90] trackingWorld)) \<noteq>
     pathLength [sampleAt 0 0, sampleAt 0 90]"
proof -
  have t: "totalDistance (trk (feedPositions [sampleAt 0 0, sampleAt 0 90] trackingWorld)) =
          6371 * (pi / 2)"
    using trackingWorld_fresh
    by (simp add: feedPositions_kmTotal sampleAt_def calculateDistance_quarter_turn
        del: feedPositions.simps)
  have p: "pathLength [sampleAt 0 0, sampleAt 0 90] = 6371000 * (pi / 2)"
    by (simp add: sampleAt_def calculateDistance_quarter_turn)
  have "6371 * (pi / 2) \<le> 12742"
    using pi_less_4 by simp
  moreover have "9556500 \<le> 6371000 * (pi / 2)"
    using pi_ge_three by simp
  ultimately show ?thesis
    unfolding t p by simp
qed

section \<open>The end-to-end scenario\<close>

subsection \<open>Bounds on sine and cosine\<close>

lemma sin_ge_cubic:
  assumes "0 \<le> (x::real)"
  shows "x - x ^ 3 / 6 \<le> sin x"
proof (cases "x = 0")
  case True
  then show ?thesis by simp
next
  case False
  with assms have "0 < x" by simp
  from Maclaurin_sin_expansion3[of 3 x, OF _ this]
  obtain t where t: "0 < t" "t < x"
    and e: "sin x = (\<Sum>m<3. sin_coeff m * x ^ m) + (sin (t + 1 / 2 * real 3 * pi) / fact 3) * x ^ 3"
    by auto
  have s: "(\<Sum>m<3. sin_coeff m * x ^ m) = x"
    by (simp add: numeral_3_eq_3 sin_coeff_def)
  have "t + 1 / 2 * real 3 * pi = t + 3 / 2 * pi"
    by simp
  then have "sin (t + 1 / 2 * real 3 * pi) = - cos t"
    by (simp only: sin_add sin_3over2_pi cos_3over2_pi)
  then have "sin x = x - cos t * x ^ 3 / 6"
    using e s by (simp add: fact_numeral)
  moreover have "cos t * x ^ 3 \<le> 1 * x ^ 3"
    using \<open>0 < x\<close> by (intro mult_right_mono) simp_all
  ultimately show ?thesis by simp
qed

lemma sin_ge_nine_tenths:
  assumes "0 \<le> (x::real)" and "x \<le> 1 / 2"
  shows "9 / 10 * x \<le> sin x"
proof -
  have "x * x \<le> 1 / 2 * (1 / 2)"
    using assms by (intro mult_mono) simp_all
  then have "x * (x * x) \<le> x * (1 / 2 * (1 / 2))"
    using assms(1) by (rule mult_left_mono)
  then have "x ^ 3 \<le> x * (1 / 4)"
    by (simp add: power3_eq_cube mult.assoc)
  then have "9 / 10 * x \<le> x - x ^ 3 / 6"
    using assms(1) by simp
  also have "\<dots> \<le> sin x"
    using assms(1) by (rule sin_ge_cubic)
  finally show ?thesis .
qed

lemma cos_ge_quadratic: "1 - x\<^sup>2 / 2 \<le> cos (x::real)"
proof -
  have a: "\<bar>sin (x / 2)\<bar> \<le> \<bar>x / 2\<bar>"
    using abs_sin_x_le_abs_x[of "x / 2"] by simp
  have "(sin (x / 2))\<^sup>2 \<le> (x / 2)\<^sup>2"
    using a abs_le_square_iff by blast
  moreover have "cos x = 1 - 2 * (sin (x / 2))\<^sup>2"
    using cos_double_sin[of "x / 2"] by simp
  ultimately show ?thesis
    by (simp add: power2_eq_square)
qed

subsection \<open>The haversine term as a chord of the unit sphere\<close>

lemma unit_norm: "(unitX la lo)\<^sup>2 + (unitY la lo)\<^sup>2 + (unitZ la lo)\<^sup>2 = 1"
proof -
  have "(unitX la lo)\<^sup>2 + (unitY la lo)\<^sup>2 =
          (cos (la * pi / 180))\<^sup>2 * ((cos (lo * pi / 180))\<^sup>2 + (sin (lo * pi / 180))\<^sup>2)"
    by (simp only: unitX_def unitY_def power_mult_distrib distrib_left)
  also have "\<dots> = (cos (la * pi / 180))\<^sup>2"
    by (simp only: cos_squared_eq) simp
  finally show ?thesis
    by (simp add: unitZ_def)
qed

lemma haversineA_dot:
  "haversineA la1 lo1 la2 lo2 =
     (1 - (unitX la1 lo1 * unitX la2 lo2 + unitY la1 lo1 * unitY la2 lo2 +
           unitZ la1 lo1 * unitZ la2 lo2)) / 2"
proof -
  have d: "(la2 - la1) * pi / 180 = la2 * pi / 180 - la1 * pi / 180"
    by (simp add: field_simps)
  have l: "(lo2 - lo1) * pi / 180 = lo2 * pi / 180 - lo1 * pi / 180"
    by (simp add: field_simps)
  show ?thesis
    unfolding haversineA_alt d l cos_diff unitX_def unitY_def unitZ_def
    by (simp add: field_simps)
qed

lemma haversineA_chord: "haversineA la1 lo1 la2 lo2 = (chord la1 lo1 la2 lo2)\<^sup>2 / 4"
proof -
  have "(unitX la1 lo1 - unitX la2 lo2)\<^sup>2 + (unitY la1 lo1 - unitY la2 lo2)\<^sup>2 +
        (unitZ la1 lo1 - unitZ la2 lo2)\<^sup>2 =
        ((unitX la1 lo1)\<^sup>2 + (unitY la1 lo1)\<^sup>2 + (unitZ la1 lo1)\<^sup>2) +
        ((unitX la2 lo2)\<^sup>2 + (unitY la2 lo2)\<^sup>2 + (unitZ la2 lo2)\<^sup>2) -
        2 * (unitX la1 lo1 * unitX la2 lo2 + unitY la1 lo1 * unitY la2 lo2 +
             unitZ la1 lo1 * unitZ la2 lo2)"
    by (simp add: power2_diff algebra_simps)
  also have "\<dots> = 2 - 2 * (unitX la1 lo1 * unitX la2 lo2 + unitY la1 lo1 * unitY la2 lo2 +
             unitZ la1 lo1 * unitZ la2 lo2)"
    by (simp only: unit_norm)
  finally have "(unitX la1 lo1 - unitX la2 lo2)\<^sup>2 + (unitY la1 lo1 - unitY la2 lo2)\<^sup>2 +
        (unitZ la1 lo1 - unitZ la2 lo2)\<^sup>2 = 4 * haversineA la1 lo1 la2 lo2"
    by (simp add: haversineA_dot)
  moreover have "(chord la1 lo1 la2 lo2)\<^sup>2 =
        (unitX la1 lo1 - unitX la2 lo2)\<^sup>2 + (unitY la1 lo1 - unitY la2 lo2)\<^sup>2 +
        (unitZ la1 lo1 - unitZ la2 lo2)\<^sup>2"
    by (simp add: chord_def)
  ultimately show ?thesis
    by simp
qed

lemma sqrt_haversineA: "sqrt (haversineA la1 lo1 la2 lo2) = chord la1 lo1 la2 lo2 / 2"
proof -
  have "0 \<le> chord la1 lo1 la2 lo2"
    by (simp add: chord_def)
  then show ?thesis
    by (simp add: haversineA_chord real_sqrt_divide)
qed

lemma sqrt_sum3_triangle:
  "sqrt ((a + d)\<^sup>2 + (b + e)\<^sup>2 + (c + f)\<^sup>2) \<le>
     sqrt (a\<^sup>2 + b\<^sup>2 + c\<^sup>2) + sqrt (d\<^sup>2 + e\<^sup>2 + f\<^sup>2)" for a b c d e f :: real
proof -
  let ?A = "sqrt (a\<^sup>2 + b\<^sup>2)" and ?D = "sqrt (d\<^sup>2 + e\<^sup>2)"
  have "sqrt ((a + d)\<^sup>2 + (b + e)\<^sup>2) \<le> ?A + ?D"
    by (rule real_sqrt_sum_squares_triangle_ineq)
  moreover have "0 \<le> sqrt ((a + d)\<^sup>2 + (b + e)\<^sup>2)"
    by simp
  ultimately have "(sqrt ((a + d)\<^sup>2 + (b + e)\<^sup>2))\<^sup>2 \<le> (?A + ?D)\<^sup>2"
    by (rule power_mono)
  then have "(a + d)\<^sup>2 + (b + e)\<^sup>2 \<le> (?A + ?D)\<^sup>2"
    by simp
  then have "sqrt ((a + d)\<^sup>2 + (b + e)\<^sup>2 + (c + f)\<^sup>2) \<le> sqrt ((?A + ?D)\<^sup>2 + (c + f)\<^sup>2)"
    by simp
  also have "\<dots> \<le> sqrt (?A\<^sup>2 + c\<^sup>2) + sqrt (?D\<^sup>2 + f\<^sup>2)"
    by (rule real_sqrt_sum_squares_triangle_ineq)
  finally show ?thesis
    by simp
qed

lemma chord_triangle:
  "chord la1 lo1 la3 lo3 \<le> chord la1 lo1 la2 lo2 + chord la2 lo2 la3 lo3"
  using sqrt_sum3_triangle
    [of "unitX la1 lo1 - unitX la2 lo2" "unitX la2 lo2 - unitX la3 lo3"
        "unitY la1 lo1 - unitY la2 lo2" "unitY la2 lo2 - unitY la3 lo3"
        "unitZ la1 lo1 - unitZ la2 lo2" "unitZ la2 lo2 - unitZ la3 lo3"]
  by (simp add: chord_def)

subsection \<open>Checkpoints farther apart than twice the threshold\<close>

lemma sin_atan2_sqrt:
  assumes "0 \<le> a" and "a \<le> 1"
  shows "sin (atan2 (sqrt a) (sqrt (1 - a))) = sqrt a"
proof (cases "a = 1")
  case True
  then show ?thesis by (simp add: atan2_def)
next
  case False
  with assms have pos: "0 < 1 - a" by simp
  then have sp: "0 < sqrt (1 - a)" by simp
  let ?t = "sqrt a / sqrt (1 - a)"
  have "?t\<^sup>2 = a / (1 - a)"
    using assms pos by (simp add: power_divide)
  then have "1 + ?t\<^sup>2 = 1 / (1 - a)"
    using pos by (simp add: field_simps)
  then have "sqrt (1 + ?t\<^sup>2) = 1 / sqrt (1 - a)"
    by (simp add: real_sqrt_divide)
  then have "sin (arctan ?t) = sqrt a"
    using sp by (simp add: sin_arctan)
  then show ?thesis
    using sp by (simp add: atan2_def)
qed

lemma atan2_le_half_pi: "0 \<le> y \<Longrightarrow> 0 \<le> x \<Longrightarrow> atan2 y x \<le> pi / 2"
  using arctan_ubound[of "y / x"] by (simp add: atan2_def less_imp_le)

lemma within_chord:
  assumes "calculateDistance la1 lo1 la2 lo2 \<le> 50"
  shows "chord la1 lo1 la2 lo2 \<le> 50 / 6371000"
proof -
  let ?a = "haversineA la1 lo1 la2 lo2"
  let ?th = "atan2 (sqrt ?a) (sqrt (1 - ?a))"
  have a01: "0 \<le> ?a" "?a \<le> 1"
    using haversineA_bounds[of la1 lo1 la2 lo2] by simp_all
  have th0: "0 \<le> ?th"
    using a01 by (intro atan2_nonneg) simp_all
  have "6371000 * (2 * ?th) \<le> 50"
    using assms by (simp add: calculateDistance_def Let_def)
  then have th1: "?th \<le> 25 / 6371000"
    by simp
  have small: "(25 :: real) / 6371000 \<le> pi / 2"
    using pi_ge_two by simp
  have "sin ?th \<le> sin (25 / 6371000)"
    using th0 th1 small by (intro sin_monotone_2pi_le) simp_all
  also have "\<dots> \<le> 25 / 6371000"
    by (rule sin_x_le_x) simp
  finally have "sqrt ?a \<le> 25 / 6371000"
    using a01 by (simp add: sin_atan2_sqrt)
  then show ?thesis
    by (simp add: sqrt_haversineA)
qed

lemma chord_sym: "chord la1 lo1 la2 lo2 = chord la2 lo2 la1 lo1"
  by (simp add: chord_def power2_commute)

lemma far_apart:
  assumes "100 / 6371000 < chord la1 lo1 la2 lo2"
    and "calculateDistance la lo la2 lo2 \<le> 50"
  shows "\<not> calculateDistance la lo la1 lo1 \<le> 50"
proof
  assume "calculateDistance la lo la1 lo1 \<le> 50"
  then have "chord la lo la1 lo1 \<le> 50 / 6371000"
    by (rule within_chord)
  then have "chord la1 lo1 la lo \<le> 50 / 6371000"
    by (simp add: chord_sym)
  moreover have "chord la lo la2 lo2 \<le> 50 / 6371000"
    using assms(2) by (rule within_chord)
  moreover have "chord la1 lo1 la2 lo2 \<le> chord la1 lo1 la lo + chord la lo la2 lo2"
    by (rule chord_triangle)
  ultimately show False
    using assms(1) by simp
qed

lemma sin_half_angle_sq_lower:
  assumes "0 \<le> d" and "d \<le> \<bar>t\<bar>" and "\<bar>t\<bar> \<le> 1"
  shows "81 / 100 * (d / 120)\<^sup>2 \<le> sin (t * pi / 180 / 2) * sin (t * pi / 180 / 2)"
proof -
  define x where "x = \<bar>t\<bar> * pi / 360"
  have x0: "0 \<le> x"
    by (simp add: x_def)
  have "\<bar>t\<bar> * pi \<le> 1 * 4"
    using assms(3) pi_less_4 by (intro mult_mono) simp_all
  then have x1: "x \<le> 1 / 2"
    unfolding x_def by linarith
  have "d * 3 \<le> \<bar>t\<bar> * pi"
    using assms(1,2) pi_ge_three by (intro mult_mono) simp_all
  then have xd: "d / 120 \<le> x"
    unfolding x_def by linarith
  have "9 / 10 * (d / 120) \<le> 9 / 10 * x"
    using xd by simp
  also have "\<dots> \<le> sin x"
    using x0 x1 by (rule sin_ge_nine_tenths)
  finally have "(9 / 10 * (d / 120))\<^sup>2 \<le> (sin x)\<^sup>2"
    using assms(1) by (intro power_mono) simp_all
  then have low: "81 / 100 * (d / 120)\<^sup>2 \<le> (sin x)\<^sup>2"
    by (simp add: power_mult_distrib power2_eq_square)
  have "t * pi / 180 / 2 = x \<or> t * pi / 180 / 2 = - x"
    by (cases "0 \<le> t") (simp_all add: x_def)
  then have "sin (t * pi / 180 / 2) * sin (t * pi / 180 / 2) = (sin x)\<^sup>2"
    by (auto simp: power2_eq_square)
  with low show ?thesis by simp
qed

lemma cos_latitude_lower:
  assumes "0 \<le> la" and "la \<le> 11"
  shows "95 / 100 \<le> cos (la * pi / 180)"
proof -
  define x where "x = la * pi / 180"
  have "la * pi \<le> 11 * 4"
    using assms pi_less_4 by (intro mult_mono) simp_all
  then have "x \<le> 11 / 45"
    unfolding x_def by linarith
  moreover have "0 \<le> x"
    using assms(1) by (simp add: x_def)
  ultimately have "x * x \<le> 11 / 45 * (11 / 45)"
    by (intro mult_mono) simp_all
  then have "95 / 100 \<le> 1 - x\<^sup>2 / 2"
    by (simp add: power2_eq_square)
  also have "\<dots> \<le> cos x"
    by (rule cos_ge_quadratic)
  finally show ?thesis
    by (simp add: x_def)
qed

lemma chord_lower:
  assumes "0 \<le> la1" "la1 \<le> 11" "0 \<le> la2" "la2 \<le> 11"
    and "8 / 10000 \<le> \<bar>la2 - la1\<bar>" "\<bar>la2 - la1\<bar> \<le> 1"
    and "1 / 1000 \<le> \<bar>lo2 - lo1\<bar>" "\<bar>lo2 - lo1\<bar> \<le> 1"
  shows "100 / 6371000 < chord la1 lo1 la2 lo2"
proof -
  let ?sx = "sin ((la2 - la1) * pi / 180 / 2) * sin ((la2 - la1) * pi / 180 / 2)"
  let ?sy = "sin ((lo2 - lo1) * pi / 180 / 2) * sin ((lo2 - lo1) * pi / 180 / 2)"
  let ?cc = "cos (la1 * pi / 180) * cos (la2 * pi / 180)"
  have sx: "81 / 100 * (8 / 10000 / 120)\<^sup>2 \<le> ?sx"
    using assms(5,6) by (intro sin_half_angle_sq_lower) simp_all
  have sy: "81 / 100 * (1 / 1000 / 120)\<^sup>2 \<le> ?sy"
    using assms(7,8) by (intro sin_half_angle_sq_lower) simp_all
  have c1: "95 / 100 \<le> cos (la1 * pi / 180)"
    using assms(1,2) by (rule cos_latitude_lower)
  have c2: "95 / 100 \<le> cos (la2 * pi / 180)"
    using assms(3,4) by (rule cos_latitude_lower)
  have cc: "95 / 100 * (95 / 100) \<le> ?cc"
    using c1 c2 by (rule mult_mono) (use c1 in simp_all)
  have cc0: "0 \<le> ?cc"
    using cc by simp
  have "95 / 100 * (95 / 100) * (81 / 100 * (1 / 1000 / 120)\<^sup>2) \<le> ?cc * ?sy"
    using cc sy by (rule mult_mono) (use cc0 in simp_all)
  with sx have "81 / 100 * (8 / 10000 / 120)\<^sup>2 +
                95 / 100 * (95 / 100) * (81 / 100 * (1 / 1000 / 120)\<^sup>2) \<le> ?sx + ?cc * ?sy"
    by (rule add_mono)
  moreover have "haversineA la1 lo1 la2 lo2 = ?sx + ?cc * ?sy"
    unfolding haversineA_def Let_def by (simp only: mult.assoc)
  moreover have "(50 / 6371000 :: real)\<^sup>2 <
      81 / 100 * (8 / 10000 / 120)\<^sup>2 + 95 / 100 * (95 / 100) * (81 / 100 * (1 / 1000 / 120)\<^sup>2)"
    by (simp add: power2_eq_square)
  ultimately have "(50 / 6371000)\<^sup>2 < haversineA la1 lo1 la2 lo2"
    by simp
  then have "(100 / 6371000)\<^sup>2 < (chord la1 lo1 la2 lo2)\<^sup>2"
    by (simp add: haversineA_chord power2_eq_square)
  moreover have "0 \<le> chord la1 lo1 la2 lo2"
    by (simp add: chord_def)
  ultimately show ?thesis
    by (rule power2_less_imp_less)
qed

subsection \<open>The scenario\<close>

lemma scenario_checkpoints:
  "generateCheckpoints scenarioRoute 4 =
     Inr (map (\<lambda>k. \<lparr>position = pointPosition (k * 4),
                     description = ''Checkpoint '' @ string_of_nat k, index = k\<rparr>) [1, 2, 3, 4])"
proof -
  let ?coords = "map scenarioPoint [0..<20]"
  have g: "geometry scenarioRoute = Some \<lparr>coordinates = Some ?coords\<rparr>"
    by (simp add: scenarioRoute_def)
  have c: "coordinates \<lparr>coordinates = Some ?coords\<rparr> = Some ?coords"
    by simp
  have len: "length ?coords = 20"
    by simp
  have d: "length ?coords div (4 + 1) = 4"
    unfolding len by simp
  have "\<forall>i\<in>{1..4::nat}. i * (length ?coords div (4 + 1)) < length ?coords"
    unfolding d len by auto
  from generateCheckpoints_all[OF g c this]
  have gen: "generateCheckpoints scenarioRoute 4 =
               Inr (map (\<lambda>k. mkCheckpoint (?coords ! (k * 4)) k) [1, 2, 3, 4])"
    unfolding d upt_1_5 .
  have mk: "mkCheckpoint (?coords ! (k * 4)) k =
      \<lparr>position = pointPosition (k * 4), description = ''Checkpoint '' @ string_of_nat k, index = k\<rparr>"
    if "k \<in> set [1, 2, 3, 4 :: nat]" for k
  proof -
    from that have "k * 4 < 20" by auto
    then have "?coords ! (k * 4) = scenarioPoint (k * 4)"
      by (simp del: upt_Suc)
    then show ?thesis
      by (simp add: mkCheckpoint_def pointPosition_def split: prod.splits)
  qed
  have "map (\<lambda>k. mkCheckpoint (?coords ! (k * 4)) k) [1, 2, 3, 4] =
        map (\<lambda>k. \<lparr>position = pointPosition (k * 4),
                description = ''Checkpoint '' @ string_of_nat k, index = k\<rparr>) [1, 2, 3, 4]"
    by (rule map_cong[OF refl]) (rule mk)
  with gen show ?thesis
    by (simp only:)
qed

lemma scenario_chord:
  assumes "k \<in> {4, 12, 16}"
  shows "100 / 6371000 < chord (snd (scenarioPoint k)) (fst (scenarioPoint k))
                              (snd (scenarioPoint 8)) (fst (scenarioPoint 8))"
  using assms by (intro chord_lower) (auto simp: scenarioPoint_def)

lemma scenario_far:
  assumes "calculateDistance la lo (snd (scenarioPoint 8)) (fst (scenarioPoint 8)) \<le> 50"
    and "k \<in> {4, 12, 16}"
  shows "\<not> calculateDistance la lo (snd (scenarioPoint k)) (fst (scenarioPoint k)) \<le> 50"
  using scenario_chord[OF assms(2)] assms(1) by (rule far_apart)

lemma scenarioCheckpoints_eq:
  "scenarioCheckpoints =
     [\<lparr>position = pointPosition 4, description = ''Checkpoint '' @ string_of_nat 1, index = 1\<rparr>,
      \<lparr>position = pointPosition 8, description = ''Checkpoint '' @ string_of_nat 2, index = 2\<rparr>,
      \<lparr>position = pointPosition 12, description = ''Checkpoint '' @ string_of_nat 3, index = 3\<rparr>,
      \<lparr>position = pointPosition 16, description = ''Checkpoint '' @ string_of_nat 4, index = 4\<rparr>]"
  by (simp add: scenarioCheckpoints_def scenario_checkpoints)

lemma afterSample_fields:
  "currentPosition (afterSample p) = Some p"
  "completedCheckpoints (afterSample p) = []"
  "appStory (afterSample p) =
     Some (generateFallbackStory ''origin'' ''destination'' scenarioCheckpoints)"
  by (simp_all add: afterSample_def onPosition_def Let_def scenarioWorld_def startTracking_def
      mountedWorld_def scenarioCheckpoints_def)

lemma scenario_story_chapters:
  "\<exists>chs. chapters (generateFallbackStory ''origin'' ''destination'' scenarioCheckpoints) = Some chs \<and>
         length chs = 5"
  by (simp add: generateFallbackStory_def fallbackLoop_length scenarioCheckpoints_eq)

lemma scenario_events:
  assumes "calculateDistance (lat p) (lng p) (lat (pointPosition 8)) (lng (pointPosition 8)) \<le> 50"
  shows "checkpointEvents (Some p) scenarioCheckpoints [] = [1]"
    and "checkpointEvents (Some p) scenarioCheckpoints [1] = []"
proof -
  have near: "calculateDistance (lat p) (lng p) (snd (scenarioPoint 8)) (fst (scenarioPoint 8)) \<le> 50"
    using assms by (simp add: pointPosition_def)
  have far: "\<not> calculateDistance (lat p) (lng p) (snd (scenarioPoint k)) (fst (scenarioPoint k)) \<le> 50"
    if "k \<in> {4, 12, 16}" for k
    using near that by (rule scenario_far)
  show "checkpointEvents (Some p) scenarioCheckpoints [] = [1]"
    using near far[of 4] far[of 12] far[of 16]
    by (simp add: checkpointEvents_def scenarioCheckpoints_eq pointPosition_def)
  show "checkpointEvents (Some p) scenarioCheckpoints [1] = []"
    using far[of 4] far[of 12] far[of 16]
    by (simp add: checkpointEvents_def scenarioCheckpoints_eq pointPosition_def)
qed

text \<open>
  Claim C8. In the scenario (twenty evenly spaced points, four checkpoints, which lie at
  the points 4, 8, 12 and 16), any sample within 50 m of point 8 makes the proximity
  effect emit exactly one event. Its argument is the array position \<open>1\<close>, that of the
  checkpoint whose \<open>index\<close> is \<open>2\<close> and whose position is point 8. The handler then records
  it and sets the current chapter to \<open>2\<close>, the third chapter. When the effect runs again on
  the new state, it emits nothing.
\<close>

theorem scenario_second_checkpoint_reached:
  assumes "calculateDistance (lat p) (lng p) (lat (pointPosition 8)) (lng (pointPosition 8)) \<le> 50"
  shows "generateCheckpoints scenarioRoute 4 = Inr scenarioCheckpoints \<and>
         map position scenarioCheckpoints = map pointPosition [4, 8, 12, 16] \<and>
         checkpointEvents (currentPosition (afterSample p)) scenarioCheckpoints
           (completedCheckpoints (afterSample p)) = [1] \<and>
         position (scenarioCheckpoints ! 1) = pointPosition 8 \<and>
         index (scenarioCheckpoints ! 1) = 2 \<and>
         completedCheckpoints (runProximityEffect scenarioCheckpoints (afterSample p)) = [1] \<and>
         currentChapter (runProximityEffect scenarioCheckpoints (afterSample p)) = 2 \<and>
         checkpointEvents
           (currentPosition (runProximityEffect scenarioCheckpoints (afterSample p)))
           scenarioCheckpoints
           (completedCheckpoints (runProximityEffect scenarioCheckpoints (afterSample p))) = []"
proof -
  note ev = scenario_events[OF assms]
  have run: "runProximityEffect scenarioCheckpoints (afterSample p) =
               handleCheckpointReached (afterSample p) 1 (afterSample p)"
    by (simp add: runProximityEffect_def afterSample_fields ev)
  obtain chs where chs:
    "chapters (generateFallbackStory ''origin'' ''destination'' scenarioCheckpoints) = Some chs"
    "length chs = 5"
    using scenario_story_chapters by blast
  have fresh: "1 \<notin> set (completedCheckpoints (afterSample p))"
    by (simp add: afterSample_fields)
  have compl: "completedCheckpoints (handleCheckpointReached (afterSample p) 1 (afterSample p)) = [1]"
    using handleCheckpointReached_completed[OF fresh, of "afterSample p"]
    by (simp add: afterSample_fields)
  have chap: "currentChapter (handleCheckpointReached (afterSample p) 1 (afterSample p)) = 2"
    using handleCheckpointReached_chapter[OF fresh afterSample_fields(3) chs(1), of "afterSample p"]
      chs(2) by simp
  have pos: "currentPosition (handleCheckpointReached (afterSample p) 1 (afterSample p)) = Some p"
    by (simp add: handleCheckpointReached_def Let_def afterSample_fields split: option.splits)
  have "generateCheckpoints scenarioRoute 4 = Inr scenarioCheckpoints"
    by (simp add: scenarioCheckpoints_def scenario_checkpoints)
  moreover have "map position scenarioCheckpoints = map pointPosition [4, 8, 12, 16]"
    by (simp add: scenarioCheckpoints_eq)
  moreover have "position (scenarioCheckpoints ! 1) = pointPosition 8"
    and "index (scenarioCheckpoints ! 1) = 2"
    by (simp_all add: scenarioCheckpoints_eq)
  ultimately show ?thesis
    unfolding run compl chap pos afterSample_fields using ev by simp
qed

theorem scenario_second_checkpoint_reached_witness:
  "calculateDistance (lat sampleAtPoint8) (lng sampleAtPoint8)
     (lat (pointPosition 8)) (lng (pointPosition 8)) \<le> 50 \<and>
   checkpointEvents (currentPosition (afterSample sampleAtPoint8)) scenarioCheckpoints
     (completedCheckpoints (afterSample sampleAtPoint8)) = [1] \<and>
   index (scenarioCheckpoints ! 1) = 2 \<and>
   currentChapter (runProximityEffect scenarioCheckpoints (afterSample sampleAtPoint8)) = 2"
proof -
  have near: "calculateDistance (lat sampleAtPoint8) (lng sampleAtPoint8)
     (lat (pointPosition 8)) (lng (pointPosition 8)) \<le> 50"
    by (simp add: sampleAtPoint8_def sampleAt_def pointPosition_def calculateDistance_same)
  from scenario_second_checkpoint_reached[OF near] near show ?thesis
    by blast
qed

end
